theory Spec2Isabelle
  imports Complex_Main
begin

section \<open>Numbers\<close>

text \<open>
  Money amounts and share counts are JavaScript numbers in the source. They are modelled
  as exact rationals: the values the claims are about (prices with a few decimals, share
  counts) are far from the range where binary rounding, overflow or NaN play a part.
  \<^verbatim>\<open>Math.round(x * 100) / 100\<close> rounds to the nearest hundredth, a tie going up.
\<close>

definition round2 :: "rat \<Rightarrow> rat" where
  "round2 x = of_int \<lfloor>x * 100 + 1 / 2\<rfloor> / 100"

text \<open>
  \<^verbatim>\<open>x.toFixed(2)\<close> prints the nearest hundredth, a tie going away from zero. The model
  returns the printed number in hundredths.
\<close>

definition toFixed2 :: "rat \<Rightarrow> int" where
  "toFixed2 x = (if x < 0 then - \<lfloor>- x * 100 + 1 / 2\<rfloor> else \<lfloor>x * 100 + 1 / 2\<rfloor>)"

section \<open>Market scheduler: isMarketOpen (src/agent.ts)\<close>

text \<open>
  \<^verbatim>\<open>et\<close> is the wall clock of America/New_York, which the source obtains from the
  runtime's locale conversion; its three fields read by the function are the input here.
  \<^verbatim>\<open>testingMode\<close> is \<^verbatim>\<open>process.env.TESTING_MODE === 'true'\<close>.
\<close>

record wall_clock =
  getDay :: nat
  getHours :: nat
  getMinutes :: nat

definition isMarketOpen :: "bool \<Rightarrow> wall_clock \<Rightarrow> bool" where
  "isMarketOpen testingMode et =
     (if testingMode then True
      else let dayOfWeek = getDay et in
        if dayOfWeek = 0 \<or> dayOfWeek = 6 then False
        else let timeInMinutes = getHours et * 60 + getMinutes et;
                 marketOpen = 9 * 60 + 30;
                 marketClose = 16 * 60
             in timeInMinutes \<ge> marketOpen \<and> timeInMinutes < marketClose)"

section \<open>Reporting: profit and loss of a sell trade (src/agent.ts, updateReadme and generateCSVReport)\<close>

datatype trade_type = Buy | Sell

text \<open>
  A trade of \<^verbatim>\<open>portfolio.history\<close>. \<^verbatim>\<open>date\<close> is the instant
  \<^verbatim>\<open>new Date(t.date)\<close> in milliseconds.
\<close>

record trade =
  date :: int
  type :: trade_type
  ticker :: string
  shares :: rat
  price :: rat
  total :: rat

record pnl_report =
  avgBuyPrice :: rat
  pnl :: rat
  pnlPercent :: rat

text \<open>
  The buys the source collects for a sell: same ticker, type buy, dated strictly before
  the sell, most recent first (the sort is stable).
\<close>

definition buyTrades :: "trade list \<Rightarrow> trade \<Rightarrow> trade list" where
  "buyTrades hist tr =
     sort_key (\<lambda>t. - date t)
       (filter (\<lambda>t. ticker t = ticker tr \<and> type t = Buy \<and> date t < date tr) hist)"

text \<open>
  The computation both report writers run for one trade of the hist. \<open>None\<close>: the
  trade gets no P&L text (it is not a sell, or no earlier buy exists).
\<close>

definition sellPnL :: "trade list \<Rightarrow> trade \<Rightarrow> pnl_report option" where
  "sellPnL hist tr =
     (if type tr = Sell then
        let bs = buyTrades hist tr in
        if length bs > 0 then
          let totalBuyShares = foldl (\<lambda>sum t. sum + shares t) 0 bs;
              totalBuyCost = foldl (\<lambda>sum t. sum + total t) 0 bs;
              avg = (if totalBuyShares > 0 then totalBuyCost / totalBuyShares else 0);
              p = (price tr - avg) * shares tr;
              pct = (if avg > 0 then ((price tr - avg) / avg) * 100 else 0)
          in Some \<lparr>avgBuyPrice = avg, pnl = p, pnlPercent = pct\<rparr>
        else None
      else None)"

text \<open>The history of the example: two buys and a later sell of one ticker.\<close>

definition example_buy1 :: trade where
  "example_buy1 = \<lparr>date = 1000, type = Buy, ticker = ''AAPL'', shares = 5, price = 100, total = 500\<rparr>"

definition example_buy2 :: trade where
  "example_buy2 = \<lparr>date = 2000, type = Buy, ticker = ''AAPL'', shares = 5, price = 120, total = 600\<rparr>"

definition example_sell :: trade where
  "example_sell = \<lparr>date = 3000, type = Sell, ticker = ''AAPL'', shares = 5, price = 130, total = 650\<rparr>"

definition example_history :: "trade list" where
  "example_history = [example_buy1, example_buy2, example_sell]"

section \<open>Retry policy: withRetry (src/agent.ts)\<close>












section \<open>The brokerage, as the agent sees it\<close>

text \<open>
  The Alpaca client is an external service. A \<open>broker\<close> value fixes what its calls
  answer: \<open>None\<close> where a call throws, and for \<^verbatim>\<open>createOrder\<close> the list of the
  orders submitted so far, which is the only part a tool can change. The numeric strings
  of the API (\<^verbatim>\<open>buying_power\<close>, \<^verbatim>\<open>qty\<close>, ...) are given as the numbers
  \<^verbatim>\<open>parseFloat\<close> reads from them.
\<close>

record quote =
  BidPrice :: rat
  AskPrice :: rat

record account =
  cash :: rat
  buying_power :: rat
  portfolio_value :: rat

record position =
  symbol :: string
  qty :: rat

record alpaca_order =
  filled_at :: "int option"
  side :: trade_type
  order_symbol :: string
  filled_qty :: rat
  filled_avg_price :: rat

record order_request =
  req_symbol :: string
  req_qty :: rat
  req_side :: trade_type
  req_type :: string
  time_in_force :: string

datatype failure = AccountFailed | PositionsFailed | OrdersFailed | QuoteFailed | OrderRejected

record broker =
  getAccount :: "account option"
  getPositions :: "position list option"
  getOrders :: "alpaca_order list option"
  getLatestQuote :: "string \<Rightarrow> quote option"
  rejects :: "order_request \<Rightarrow> bool"
  submitted :: "order_request list"

definition getAlpacaAccount :: "broker \<Rightarrow> failure + account" where
  "getAlpacaAccount b = (case getAccount b of None \<Rightarrow> Inl AccountFailed | Some a \<Rightarrow> Inr a)"

definition getAlpacaPositions :: "broker \<Rightarrow> failure + position list" where
  "getAlpacaPositions b = (case getPositions b of None \<Rightarrow> Inl PositionsFailed | Some ps \<Rightarrow> Inr ps)"


text \<open>
  \<^verbatim>\<open>alpaca.createOrder\<close>: the order is appended to the submitted ones and its
  number is its id, or the brokerage rejects it and the call throws.
\<close>

definition createOrder :: "broker \<Rightarrow> order_request \<Rightarrow> failure + (nat \<times> broker)" where
  "createOrder b req =
     (if rejects b req then Inl OrderRejected
      else Inr (length (submitted b), b\<lparr>submitted := submitted b @ [req]\<rparr>))"

section \<open>Price resolution\<close>

text \<open>
  \<^verbatim>\<open>getStockPrice\<close> of src/agent.ts: the brokerage quote only. A missing quote, or a
  bid or ask that is zero or absent, fails the \<^verbatim>\<open>invariant\<close> and the error is thrown
  again by the handler.
\<close>

definition getStockPrice :: "broker \<Rightarrow> string \<Rightarrow> failure + rat" where
  "getStockPrice b tkr =
     (case getLatestQuote b tkr of
        None \<Rightarrow> Inl QuoteFailed
      | Some quote \<Rightarrow>
          if BidPrice quote \<noteq> 0 \<and> AskPrice quote \<noteq> 0
          then let midPrice = (BidPrice quote + AskPrice quote) / 2 in Inr (round2 midPrice)
          else Inl QuoteFailed)"

text \<open>
  The earlier agent (and \<^verbatim>\<open>TradingService.getStockPrice\<close>) resolves a price through
  three sources. \<open>yahoo tkr\<close> (\<open>tkr\<close> the ticker) is \<^verbatim>\<open>regularMarketPrice\<close> of the chart response
  when the request succeeds and the field is a number, \<open>None\<close> otherwise; \<open>random\<close>
  is the value \<^verbatim>\<open>Math.random()\<close> returns. Each branch writes its own log line, which
  the result carries as a tag.
\<close>

datatype price_source = ViaAlpaca | ViaYahoo | Fallback

definition mockPrices :: "(string \<times> rat) list" where
  "mockPrices =
     [(''AAPL'', 22450 / 100), (''GOOGL'', 17520 / 100), (''MSFT'', 41970 / 100),
      (''TSLA'', 24680 / 100), (''NVDA'', 12650 / 100), (''XLI'', 13540 / 100),
      (''HEI'', 22530 / 100), (''RCL'', 16025 / 100), (''NIO'', 425 / 100),
      (''XLP'', 8015 / 100), (''XLV'', 13560 / 100), (''XLY'', 19025 / 100),
      (''XLF'', 4280 / 100), (''SPY'', 55020 / 100)]"

text \<open>\<^verbatim>\<open>toUpperCase\<close> on the letters a to z; other characters are kept.\<close>

definition toUpperCase :: "string \<Rightarrow> string" where
  "toUpperCase t =
     map (\<lambda>c. case map_of (zip ''abcdefghijklmnopqrstuvwxyz'' ''ABCDEFGHIJKLMNOPQRSTUVWXYZ'') c of
                 Some u \<Rightarrow> u | None \<Rightarrow> c) t"

definition primaryPrice :: "broker \<Rightarrow> string \<Rightarrow> rat option" where
  "primaryPrice b tkr =
     (case getLatestQuote b tkr of
        None \<Rightarrow> None
      | Some quote \<Rightarrow>
          if BidPrice quote \<noteq> 0 \<and> AskPrice quote \<noteq> 0
          then let midPrice = (BidPrice quote + AskPrice quote) / 2 in Some (round2 midPrice)
          else None)"

definition secondaryPrice :: "(string \<Rightarrow> rat option) \<Rightarrow> string \<Rightarrow> rat option" where
  "secondaryPrice yahoo tkr =
     (case yahoo tkr of
        None \<Rightarrow> None
      | Some px \<Rightarrow> if px \<noteq> 0 \<and> px > 0 then Some px else None)"

definition getStockPrice_fallback ::
  "broker \<Rightarrow> (string \<Rightarrow> rat option) \<Rightarrow> rat \<Rightarrow> string \<Rightarrow> rat \<times> price_source" where
  "getStockPrice_fallback b yahoo random tkr =
     (case primaryPrice b tkr of
        Some px \<Rightarrow> (px, ViaAlpaca)
      | None \<Rightarrow>
          (case secondaryPrice yahoo tkr of
             Some px \<Rightarrow> (px, ViaYahoo)
           | None \<Rightarrow>
               (let fallbackPrice =
                      (case map_of mockPrices (toUpperCase tkr) of
                         Some m \<Rightarrow> if m \<noteq> 0 then m else 50 + random * 200
                       | None \<Rightarrow> 50 + random * 200)
                in (round2 fallbackPrice, Fallback))))"

section \<open>Trade tools (src/agent.ts: buyTool, sellTool, shortSellTool, coverShortTool)\<close>

text \<open>
  Each tool returns a string built from a fixed template. A \<open>reply\<close> names the template
  and carries the values put into it.
\<close>

datatype reply =
    NotEnoughBuyingPower rat string rat rat
  | SubmittedBuy rat string nat rat
  | FailedBuy rat string failure
  | NotEnoughShares string rat
  | SubmittedSell rat string nat rat
  | FailedSell rat string failure
  | EquityBelowMinimum rat
  | InsufficientBuyingPowerShort rat rat
  | SubmittedShortSell rat string nat rat
  | FailedShortSell rat string failure
  | NoShortPosition string rat
  | CannotCover rat rat string
  | SubmittedCover rat string nat rat
  | FailedCover rat string failure

fun is_submitted :: "reply \<Rightarrow> bool" where
  "is_submitted (SubmittedBuy _ _ _ _) = True"
| "is_submitted (SubmittedSell _ _ _ _) = True"
| "is_submitted (SubmittedShortSell _ _ _ _) = True"
| "is_submitted (SubmittedCover _ _ _ _) = True"
| "is_submitted _ = False"

definition market_order :: "string \<Rightarrow> rat \<Rightarrow> trade_type \<Rightarrow> order_request" where
  "market_order tkr n sd =
     \<lparr>req_symbol = tkr, req_qty = n, req_side = sd, req_type = ''market'', time_in_force = ''gtc''\<rparr>"

definition buyTool :: "broker \<Rightarrow> string \<Rightarrow> rat \<Rightarrow> reply \<times> broker" where
  "buyTool b tkr n =
     (case getAlpacaAccount b of
        Inl error \<Rightarrow> (FailedBuy n tkr error, b)
      | Inr account \<Rightarrow>
          (case getStockPrice b tkr of
             Inl error \<Rightarrow> (FailedBuy n tkr error, b)
           | Inr px \<Rightarrow>
               let orderValue = n * px in
               if buying_power account < orderValue
               then (NotEnoughBuyingPower n tkr (buying_power account) orderValue, b)
               else (case createOrder b (market_order tkr n Buy) of
                       Inl error \<Rightarrow> (FailedBuy n tkr error, b)
                     | Inr (order_id, b') \<Rightarrow> (SubmittedBuy n tkr order_id orderValue, b'))))"

definition sellTool :: "broker \<Rightarrow> string \<Rightarrow> rat \<Rightarrow> reply \<times> broker" where
  "sellTool b tkr n =
     (case getAlpacaPositions b of
        Inl error \<Rightarrow> (FailedSell n tkr error, b)
      | Inr positions \<Rightarrow>
          (case find (\<lambda>p. symbol p = tkr) positions of
             None \<Rightarrow> (NotEnoughShares tkr 0, b)
           | Some position \<Rightarrow>
               if qty position < n then (NotEnoughShares tkr (qty position), b)
               else (case getStockPrice b tkr of
                       Inl error \<Rightarrow> (FailedSell n tkr error, b)
                     | Inr px \<Rightarrow>
                         let orderValue = n * px in
                         (case createOrder b (market_order tkr n Sell) of
                            Inl error \<Rightarrow> (FailedSell n tkr error, b)
                          | Inr (order_id, b') \<Rightarrow> (SubmittedSell n tkr order_id orderValue, b')))))"

definition shortSellTool :: "broker \<Rightarrow> string \<Rightarrow> rat \<Rightarrow> reply \<times> broker" where
  "shortSellTool b tkr n =
     (case getAlpacaAccount b of
        Inl error \<Rightarrow> (FailedShortSell n tkr error, b)
      | Inr account \<Rightarrow>
          let accountEquity = portfolio_value account;
              buyingPower = buying_power account
          in if accountEquity < 40000 then (EquityBelowMinimum accountEquity, b)
             else (case getStockPrice b tkr of
                     Inl error \<Rightarrow> (FailedShortSell n tkr error, b)
                   | Inr px \<Rightarrow>
                       let orderValue = n * px in
                       if buyingPower < orderValue * (1 / 2)
                       then (InsufficientBuyingPowerShort (orderValue * (1 / 2)) buyingPower, b)
                       else (case createOrder b (market_order tkr n Sell) of
                               Inl error \<Rightarrow> (FailedShortSell n tkr error, b)
                             | Inr (order_id, b') \<Rightarrow>
                                 (SubmittedShortSell n tkr order_id orderValue, b'))))"

definition coverShortTool :: "broker \<Rightarrow> string \<Rightarrow> rat \<Rightarrow> reply \<times> broker" where
  "coverShortTool b tkr n =
     (case getAlpacaPositions b of
        Inl error \<Rightarrow> (FailedCover n tkr error, b)
      | Inr positions \<Rightarrow>
          (case find (\<lambda>p. symbol p = tkr) positions of
             None \<Rightarrow> (NoShortPosition tkr 0, b)
           | Some position \<Rightarrow>
               if qty position \<ge> 0 then (NoShortPosition tkr (qty position), b)
               else let shortPosition = \<bar>qty position\<bar> in
                 if n > shortPosition then (CannotCover n shortPosition tkr, b)
                 else (case getStockPrice b tkr of
                         Inl error \<Rightarrow> (FailedCover n tkr error, b)
                       | Inr px \<Rightarrow>
                           let orderValue = n * px in
                           (case createOrder b (market_order tkr n Buy) of
                              Inl error \<Rightarrow> (FailedCover n tkr error, b)
                            | Inr (order_id, b') \<Rightarrow>
                                (SubmittedCover n tkr order_id orderValue, b')))))"

section \<open>Portfolio and net worth (src/agent.ts: getPortfolio, calculateNetWorth)\<close>

record portfolio =
  cash :: rat
  holdings :: "(string \<times> rat) list"
  history :: "trade list"




section \<open>Annualised return: calculateCAGR (TradingService and src/agent.ts)\<close>







section \<open>Thread store: loadThread\<close>

text \<open>
  An item of the persisted thread, as far as the load-time checks read it: its
  \<^verbatim>\<open>type\<close>, \<^verbatim>\<open>callId\<close> and \<^verbatim>\<open>id\<close> (\<open>None\<close> where the field is absent).
\<close>

record thread_item =
  item_type :: "string option"
  callId :: "string option"
  item_id :: "string option"

text \<open>
  The files of one profile: the thread file, and the copies
  \<^verbatim>\<open>thread-<profile>.json.corrupted-<n>\<close>, one for each value \<open>n\<close> of
  \<^verbatim>\<open>Date.now()\<close>. A file system maps the files that exist to their content.
\<close>

datatype file_name = ThreadFile | CorruptedCopy nat

type_synonym files = "file_name \<Rightarrow> string option"

definition hasCorruption :: "thread_item list \<Rightarrow> bool" where
  "hasCorruption fullThread =
     list_ex (\<lambda>item.
        callId item = Some ''call_en9S0pLVBoYjEcU4hnyuVl5X''
        \<or> (item_type item = Some ''function_call_result''
            \<and> find (\<lambda>call. callId call = callId item \<and> item_type call = Some ''function_call'')
                 fullThread = None))
       fullThread"

definition hasReasoningMismatch :: "thread_item list \<Rightarrow> bool" where
  "hasReasoningMismatch fullThread =
     (let functionCalls = filter (\<lambda>item. item_type item = Some ''function_call'') fullThread;
          reasoningItems = filter (\<lambda>item. item_type item = Some ''reasoning'') fullThread
      in list_ex (\<lambda>fc.
            case item_id fc of
              None \<Rightarrow> False
            | Some i \<Rightarrow>
                if i = [] \<or> take 3 i \<noteq> ''fc_'' then False
                else let expectedReasoningId = ''rs_'' @ drop 3 i
                     in \<not> list_ex (\<lambda>rs. item_id rs = Some expectedReasoningId) reasoningItems)
           functionCalls)"

text \<open>
  \<^verbatim>\<open>loadThread\<close> of src/agent.ts. \<open>parse\<close> is \<^verbatim>\<open>JSON.parse\<close> read as a list of
  items (\<open>None\<close> where it throws or the checks throw on what it returns), \<open>now\<close> the
  value of \<^verbatim>\<open>Date.now()\<close>. The result is the thread and the files afterwards.
\<close>

definition loadThread ::
  "(string \<Rightarrow> thread_item list option) \<Rightarrow> nat \<Rightarrow> files \<Rightarrow> thread_item list \<times> files" where
  "loadThread parse now fs =
     (case fs ThreadFile of
        None \<Rightarrow> ([], fs)
      | Some threadData \<Rightarrow>
          (case parse threadData of
             None \<Rightarrow> ([], fs)
           | Some fullThread \<Rightarrow>
               if hasCorruption fullThread
               then ([], fs(CorruptedCopy now \<mapsto> threadData))
               else if length fullThread > 50 then ([], fs)
               else (fullThread, fs)))"

text \<open>
  \<^verbatim>\<open>loadThread\<close> of the agent in src/unnamed/part_008 (lines 2465-2513), which also
  checks that function calls have their reasoning items.
\<close>

definition loadThread_reasoning ::
  "(string \<Rightarrow> thread_item list option) \<Rightarrow> nat \<Rightarrow> files \<Rightarrow> thread_item list \<times> files" where
  "loadThread_reasoning parse now fs =
     (case fs ThreadFile of
        None \<Rightarrow> ([], fs)
      | Some threadData \<Rightarrow>
          (case parse threadData of
             None \<Rightarrow> ([], fs)
           | Some fullThread \<Rightarrow>
               if hasReasoningMismatch fullThread
               then ([], fs(CorruptedCopy now \<mapsto> threadData))
               else if hasCorruption fullThread
               then ([], fs(CorruptedCopy now \<mapsto> threadData))
               else if length fullThread > 50 then ([], fs)
               else (fullThread, fs)))"

text \<open>
  Example threads: 51 plain messages; a function result whose call is not in the thread;
  a function call \<^verbatim>\<open>fc_1\<close> without the reasoning item \<^verbatim>\<open>rs_1\<close>. And the files of
  a profile whose thread file has the content \<open>raw\<close>.
\<close>

definition oversized_thread :: "thread_item list" where
  "oversized_thread = replicate 51 \<lparr>item_type = Some ''message'', callId = None, item_id = None\<rparr>"

definition orphan_result_thread :: "thread_item list" where
  "orphan_result_thread =
     [\<lparr>item_type = Some ''message'', callId = None, item_id = None\<rparr>,
      \<lparr>item_type = Some ''function_call_result'', callId = Some ''call_1'', item_id = None\<rparr>]"

definition unreasoned_call_thread :: "thread_item list" where
  "unreasoned_call_thread =
     [\<lparr>item_type = Some ''function_call'', callId = Some ''call_2'', item_id = Some ''fc_1''\<rparr>,
      \<lparr>item_type = Some ''function_call_result'', callId = Some ''call_2'', item_id = None\<rparr>]"

definition thread_files :: "string \<Rightarrow> files" where
  "thread_files raw = (\<lambda>f. None)(ThreadFile \<mapsto> raw)"

section \<open>Market scheduler: getNextMarketOpen (src/agent.ts)\<close>







section \<open>Example brokerages\<close>

text \<open>A brokerage that answers no call.\<close>

definition offline_broker :: broker where
  "offline_broker =
     \<lparr>getAccount = None, getPositions = None, getOrders = None,
      getLatestQuote = (\<lambda>tkr. None), rejects = (\<lambda>req. False), submitted = []\<rparr>"

text \<open>
  An account with 1000 of cash and equity and 100 of buying power, long 3 AAPL and short
  5 TSLA, quoted at 224.45/224.55 and 100/100.
\<close>

definition example_broker :: broker where
  "example_broker =
     \<lparr>getAccount = Some \<lparr>account.cash = 1000, buying_power = 100, portfolio_value = 1000\<rparr>,
      getPositions = Some [\<lparr>symbol = ''TSLA'', qty = - 5\<rparr>, \<lparr>symbol = ''AAPL'', qty = 3\<rparr>],
      getOrders = Some [],
      getLatestQuote = (\<lambda>tkr. if tkr = ''AAPL'' then Some \<lparr>BidPrice = 22445 / 100, AskPrice = 22455 / 100\<rparr>
                             else if tkr = ''TSLA'' then Some \<lparr>BidPrice = 100, AskPrice = 100\<rparr>
                             else None),
      rejects = (\<lambda>req. False),
      submitted = []\<rparr>"

section \<open>Theorems\<close>

lemma floor_rat_divide_numeral [simp]:
  "\<lfloor>numeral a / numeral b :: rat\<rfloor> = numeral a div numeral b"
  using floor_divide_of_int_eq [of "numeral a" "numeral b", where ?'a = rat] by simp

lemma floor_rat_minus_divide_numeral [simp]:
  "\<lfloor>- (numeral a / numeral b) :: rat\<rfloor> = - numeral a div numeral b"
  using floor_divide_of_int_eq [of "- numeral a" "numeral b", where ?'a = rat] by simp

lemma floor_rat_one_divide_numeral [simp]:
  "\<lfloor>1 / numeral b :: rat\<rfloor> = 1 div numeral b"
  using floor_divide_of_int_eq [of 1 "numeral b", where ?'a = rat] by simp

lemma example_buyTrades:
  "buyTrades example_history example_sell = [example_buy2, example_buy1]"
  by (simp add: buyTrades_def example_history_def example_buy1_def example_buy2_def
      example_sell_def)

lemma example_sellPnL:
  "sellPnL example_history example_sell
     = Some \<lparr>avgBuyPrice = 110, pnl = 100, pnlPercent = 200 / 11\<rparr>"
  unfolding sellPnL_def example_buyTrades
  by (simp add: example_buy1_def example_buy2_def example_sell_def)

lemma foldl_add_sum_list:
  "foldl (\<lambda>sum t. sum + g t) a xs = a + sum_list (map g xs)" for a :: rat
  by (induction xs arbitrary: a) (simp_all add: add.assoc)

lemma sum_list_insort_key:
  "sum_list (map g (insort_key f x xs)) = g x + sum_list (map g xs)" for g :: "'a \<Rightarrow> rat"
  by (induction xs) simp_all

lemma sum_list_sort_key:
  "sum_list (map g (sort_key f xs)) = sum_list (map g xs)" for g :: "'a \<Rightarrow> rat"
  by (induction xs) (simp_all add: sum_list_insort_key)

lemma sellPnL_general:
  assumes "type tr = Sell"
    and "prior = filter (\<lambda>t. ticker t = ticker tr \<and> type t = Buy \<and> date t < date tr) hist"
    and "prior \<noteq> []"
    and "0 < sum_list (map shares prior)"
    and "avg = sum_list (map total prior) / sum_list (map shares prior)"
  shows "sellPnL hist tr
       = Some \<lparr>avgBuyPrice = avg, pnl = (price tr - avg) * shares tr,
               pnlPercent = (if avg > 0 then (price tr - avg) / avg * 100 else 0)\<rparr>"
proof -
  have bs: "buyTrades hist tr = sort_key (\<lambda>t. - date t) prior"
    using assms(2) by (simp add: buyTrades_def)
  have ne: "length (buyTrades hist tr) > 0"
    using assms(3) by (simp add: bs)
  have s: "foldl (\<lambda>sum t. sum + shares t) 0 (buyTrades hist tr) = sum_list (map shares prior)"
    by (simp add: bs foldl_add_sum_list sum_list_sort_key)
  have c: "foldl (\<lambda>sum t. sum + total t) 0 (buyTrades hist tr) = sum_list (map total prior)"
    by (simp add: bs foldl_add_sum_list sum_list_sort_key)
  show ?thesis
    unfolding sellPnL_def Let_def s c using assms(1,4,5) ne by simp
qed

text \<open>
  C1 (amended): for buys of 5 shares at 100 and 5 shares at 120 followed by a sell of 5
  shares at 130 of the same ticker, the report computation yields avgBuyPrice = 110,
  pnl = 100 and pnlPercent = 200/11, printed as 18.18 (not 9.09). In general the average is
  the sum of the totals over the sum of the shares of all buys of the ticker dated
  strictly before the sell.
\<close>

theorem sellPnL_weighted_average:
  "sellPnL example_history example_sell
     = Some \<lparr>avgBuyPrice = 110, pnl = 100, pnlPercent = 200 / 11\<rparr>
   \<and> toFixed2 (200 / 11) = 1818
   \<and> (\<forall>hist tr prior.
         type tr = Sell
         \<and> prior = filter (\<lambda>t. ticker t = ticker tr \<and> type t = Buy \<and> date t < date tr) hist
         \<and> prior \<noteq> [] \<and> 0 < sum_list (map shares prior)
         \<longrightarrow> (\<exists>r. sellPnL hist tr = Some r
               \<and> avgBuyPrice r = sum_list (map total prior) / sum_list (map shares prior)
               \<and> pnl r = (price tr - avgBuyPrice r) * shares tr
               \<and> (avgBuyPrice r > 0
                    \<longrightarrow> pnlPercent r = (price tr - avgBuyPrice r) / avgBuyPrice r * 100)))"
proof (intro conjI allI impI)
  show "sellPnL example_history example_sell
     = Some \<lparr>avgBuyPrice = 110, pnl = 100, pnlPercent = 200 / 11\<rparr>"
    by (rule example_sellPnL)
  show "toFixed2 (200 / 11) = 1818"
    by (simp add: toFixed2_def)
next
  fix hist prior :: "trade list" and tr :: trade
  assume h: "type tr = Sell
         \<and> prior = filter (\<lambda>t. ticker t = ticker tr \<and> type t = Buy \<and> date t < date tr) hist
         \<and> prior \<noteq> [] \<and> 0 < sum_list (map shares prior)"
  show "\<exists>r. sellPnL hist tr = Some r
               \<and> avgBuyPrice r = sum_list (map total prior) / sum_list (map shares prior)
               \<and> pnl r = (price tr - avgBuyPrice r) * shares tr
               \<and> (avgBuyPrice r > 0
                    \<longrightarrow> pnlPercent r = (price tr - avgBuyPrice r) / avgBuyPrice r * 100)"
  proof -
    from h have h1: "type tr = Sell"
      and h2: "prior = filter (\<lambda>t. ticker t = ticker tr \<and> type t = Buy \<and> date t < date tr) hist"
      and h3: "prior \<noteq> []" and h4: "0 < sum_list (map shares prior)"
      by blast+
    show ?thesis
      unfolding sellPnL_general [OF h1 h2 h3 h4 refl] by simp
  qed
qed

theorem sellPnL_weighted_average_witness:
  "type example_sell = Sell
   \<and> filter (\<lambda>t. ticker t = ticker example_sell \<and> type t = Buy \<and> date t < date example_sell)
        example_history = [example_buy1, example_buy2]
   \<and> 0 < sum_list (map shares [example_buy1, example_buy2])
   \<and> (\<exists>r. sellPnL example_history example_sell = Some r
        \<and> avgBuyPrice r = 110 \<and> pnl r = 100 \<and> pnlPercent r = 200 / 11)"
  using sellPnL_weighted_average
  by (simp add: example_history_def example_buy1_def example_buy2_def example_sell_def)

text \<open>
  C1 as stated, refuted: the percentage of the example is 18.18, not the 9.09 the claim
  gives (9.09 would be the gain over the cost of all ten shares bought).
\<close>

theorem sellPnL_percent_counterexample:
  "map_option (\<lambda>r. toFixed2 (pnlPercent r)) (sellPnL example_history example_sell) \<noteq> Some 909"
  by (simp add: example_sellPnL toFixed2_def)

text \<open>
  C10: on a weekday, with the test override off, the market is open at exactly 09:30 and
  closed at exactly 16:00 New York time; the window is 570 \<le> minutes of the day < 960.
\<close>

theorem isMarketOpen_half_open:
  assumes "getDay et \<noteq> 0" and "getDay et \<noteq> 6"
  shows "isMarketOpen False (et\<lparr>getHours := 9, getMinutes := 30\<rparr>)
       \<and> \<not> isMarketOpen False (et\<lparr>getHours := 16, getMinutes := 0\<rparr>)
       \<and> (isMarketOpen False et
           \<longleftrightarrow> 570 \<le> getHours et * 60 + getMinutes et
               \<and> getHours et * 60 + getMinutes et < 960)"
  using assms by (simp add: isMarketOpen_def Let_def)

theorem isMarketOpen_half_open_witness:
  "isMarketOpen False \<lparr>getDay = 3, getHours = 9, getMinutes = 30\<rparr>
   \<and> \<not> isMarketOpen False \<lparr>getDay = 3, getHours = 16, getMinutes = 0\<rparr>
   \<and> isMarketOpen False \<lparr>getDay = 3, getHours = 15, getMinutes = 59\<rparr>"
  using isMarketOpen_half_open [of "\<lparr>getDay = 3, getHours = 15, getMinutes = 59\<rparr>"]
  by simp













lemma offline_primary: "primaryPrice offline_broker tkr = None"
  by (simp add: primaryPrice_def offline_broker_def)







text \<open>
  C7: the secondary branch returns the source's number as it is. With the brokerage quote
  failing and a secondary price of 123.456 the resolved price is 123.456, which is not
  rounded to two decimals (that would be 123.46); the other two branches do round.
\<close>

theorem getStockPrice_fallback_yahoo_unrounded:
  "getStockPrice_fallback offline_broker (\<lambda>tkr. Some (123456 / 1000)) 0 ''AAPL''
     = (123456 / 1000, ViaYahoo)
   \<and> round2 (123456 / 1000) = 12346 / 100
   \<and> fst (getStockPrice_fallback offline_broker (\<lambda>tkr. Some (123456 / 1000)) 0 ''AAPL'')
       \<noteq> round2 (fst (getStockPrice_fallback offline_broker (\<lambda>tkr. Some (123456 / 1000)) 0 ''AAPL''))"
  by (simp add: getStockPrice_fallback_def offline_primary secondaryPrice_def round2_def)

lemma buyTool_frame: "\<not> is_submitted (fst (buyTool b tkr n)) \<Longrightarrow> snd (buyTool b tkr n) = b"
  by (auto simp add: buyTool_def Let_def split: sum.splits prod.splits)

lemma sellTool_frame: "\<not> is_submitted (fst (sellTool b tkr n)) \<Longrightarrow> snd (sellTool b tkr n) = b"
  by (auto simp add: sellTool_def Let_def split: sum.splits prod.splits option.splits)

lemma shortSellTool_frame:
  "\<not> is_submitted (fst (shortSellTool b tkr n)) \<Longrightarrow> snd (shortSellTool b tkr n) = b"
  by (auto simp add: shortSellTool_def Let_def split: sum.splits prod.splits)

lemma coverShortTool_frame:
  "\<not> is_submitted (fst (coverShortTool b tkr n)) \<Longrightarrow> snd (coverShortTool b tkr n) = b"
  by (auto simp add: coverShortTool_def Let_def split: sum.splits prod.splits option.splits)

lemma buyTool_rejects:
  assumes "getAccount b = Some a" and "getStockPrice b tkr = Inr px" and "buying_power a < n * px"
  shows "buyTool b tkr n = (NotEnoughBuyingPower n tkr (buying_power a) (n * px), b)"
  using assms by (simp add: buyTool_def getAlpacaAccount_def)

lemma sellTool_rejects:
  assumes "getPositions b = Some ps"
    and "find (\<lambda>p. symbol p = tkr) ps = None
         \<or> (\<exists>pos. find (\<lambda>p. symbol p = tkr) ps = Some pos \<and> qty pos < n)"
  shows "\<exists>held. sellTool b tkr n = (NotEnoughShares tkr held, b)"
  using assms by (auto simp add: sellTool_def getAlpacaPositions_def)

lemma shortSellTool_rejects_equity:
  assumes "getAccount b = Some a" and "portfolio_value a < 40000"
  shows "shortSellTool b tkr n = (EquityBelowMinimum (portfolio_value a), b)"
  using assms by (simp add: shortSellTool_def getAlpacaAccount_def)

lemma shortSellTool_rejects_margin:
  assumes "getAccount b = Some a" and "\<not> portfolio_value a < 40000"
    and "getStockPrice b tkr = Inr px" and "buying_power a < n * px * (1 / 2)"
  shows "shortSellTool b tkr n
       = (InsufficientBuyingPowerShort (n * px * (1 / 2)) (buying_power a), b)"
  using assms by (simp add: shortSellTool_def getAlpacaAccount_def)

lemma coverShortTool_rejects_none:
  assumes "getPositions b = Some ps"
    and "find (\<lambda>p. symbol p = tkr) ps = None
         \<or> (\<exists>pos. find (\<lambda>p. symbol p = tkr) ps = Some pos \<and> qty pos \<ge> 0)"
  shows "\<exists>held. coverShortTool b tkr n = (NoShortPosition tkr held, b)"
  using assms by (auto simp add: coverShortTool_def getAlpacaPositions_def)

lemma coverShortTool_rejects_size:
  assumes "getPositions b = Some ps" and "find (\<lambda>p. symbol p = tkr) ps = Some pos"
    and "qty pos < 0" and "n > \<bar>qty pos\<bar>"
  shows "coverShortTool b tkr n = (CannotCover n \<bar>qty pos\<bar> tkr, b)"
  using assms by (simp add: coverShortTool_def getAlpacaPositions_def)

text \<open>
  C6: a buy, sell, short_sell or cover_short whose validation fails (buying power below
  the order value; no position or fewer shares held than sold; equity below 40000 or
  buying power below half the order value; no short position or a smaller one than
  covered) returns the explanatory reply and leaves the brokerage as it was: createOrder
  is not called. More generally a tool changes the brokerage only when its reply is a
  submission.
\<close>

theorem trade_tools_validation_submits_nothing:
  "(getAccount b = Some a \<and> getStockPrice b tkr = Inr px \<and> buying_power a < n * px
      \<longrightarrow> buyTool b tkr n = (NotEnoughBuyingPower n tkr (buying_power a) (n * px), b))
   \<and> (getPositions b = Some ps
        \<and> (find (\<lambda>p. symbol p = tkr) ps = None
            \<or> (\<exists>pos. find (\<lambda>p. symbol p = tkr) ps = Some pos \<and> qty pos < n))
      \<longrightarrow> (\<exists>held. sellTool b tkr n = (NotEnoughShares tkr held, b)))
   \<and> (getAccount b = Some a \<and> portfolio_value a < 40000
      \<longrightarrow> shortSellTool b tkr n = (EquityBelowMinimum (portfolio_value a), b))
   \<and> (getAccount b = Some a \<and> \<not> portfolio_value a < 40000
        \<and> getStockPrice b tkr = Inr px \<and> buying_power a < n * px * (1 / 2)
      \<longrightarrow> shortSellTool b tkr n
           = (InsufficientBuyingPowerShort (n * px * (1 / 2)) (buying_power a), b))
   \<and> (getPositions b = Some ps
        \<and> (find (\<lambda>p. symbol p = tkr) ps = None
            \<or> (\<exists>pos. find (\<lambda>p. symbol p = tkr) ps = Some pos \<and> qty pos \<ge> 0))
      \<longrightarrow> (\<exists>held. coverShortTool b tkr n = (NoShortPosition tkr held, b)))
   \<and> (getPositions b = Some ps \<and> find (\<lambda>p. symbol p = tkr) ps = Some sp
        \<and> qty sp < 0 \<and> n > \<bar>qty sp\<bar>
      \<longrightarrow> coverShortTool b tkr n = (CannotCover n \<bar>qty sp\<bar> tkr, b))
   \<and> (\<not> is_submitted (fst (buyTool b tkr n)) \<longrightarrow> snd (buyTool b tkr n) = b)
   \<and> (\<not> is_submitted (fst (sellTool b tkr n)) \<longrightarrow> snd (sellTool b tkr n) = b)
   \<and> (\<not> is_submitted (fst (shortSellTool b tkr n)) \<longrightarrow> snd (shortSellTool b tkr n) = b)
   \<and> (\<not> is_submitted (fst (coverShortTool b tkr n)) \<longrightarrow> snd (coverShortTool b tkr n) = b)"
proof (intro conjI impI)
  show "buyTool b tkr n = (NotEnoughBuyingPower n tkr (buying_power a) (n * px), b)"
    if "getAccount b = Some a \<and> getStockPrice b tkr = Inr px \<and> buying_power a < n * px"
    using that by (intro buyTool_rejects) blast+
  show "\<exists>held. sellTool b tkr n = (NotEnoughShares tkr held, b)"
    if "getPositions b = Some ps
        \<and> (find (\<lambda>p. symbol p = tkr) ps = None
            \<or> (\<exists>pos. find (\<lambda>p. symbol p = tkr) ps = Some pos \<and> qty pos < n))"
    using that by (intro sellTool_rejects [where ps = ps]) blast+
  show "shortSellTool b tkr n = (EquityBelowMinimum (portfolio_value a), b)"
    if "getAccount b = Some a \<and> portfolio_value a < 40000"
    using that by (intro shortSellTool_rejects_equity) blast+
  show "shortSellTool b tkr n
           = (InsufficientBuyingPowerShort (n * px * (1 / 2)) (buying_power a), b)"
    if "getAccount b = Some a \<and> \<not> portfolio_value a < 40000
        \<and> getStockPrice b tkr = Inr px \<and> buying_power a < n * px * (1 / 2)"
    using that by (intro shortSellTool_rejects_margin) blast+
  show "\<exists>held. coverShortTool b tkr n = (NoShortPosition tkr held, b)"
    if "getPositions b = Some ps
        \<and> (find (\<lambda>p. symbol p = tkr) ps = None
            \<or> (\<exists>pos. find (\<lambda>p. symbol p = tkr) ps = Some pos \<and> qty pos \<ge> 0))"
    using that by (intro coverShortTool_rejects_none [where ps = ps]) blast+
  show "coverShortTool b tkr n = (CannotCover n \<bar>qty sp\<bar> tkr, b)"
    if "getPositions b = Some ps \<and> find (\<lambda>p. symbol p = tkr) ps = Some sp
        \<and> qty sp < 0 \<and> n > \<bar>qty sp\<bar>"
    using that by (intro coverShortTool_rejects_size [where ps = ps]) blast+
  show "snd (buyTool b tkr n) = b" if "\<not> is_submitted (fst (buyTool b tkr n))"
    using that by (rule buyTool_frame)
  show "snd (sellTool b tkr n) = b" if "\<not> is_submitted (fst (sellTool b tkr n))"
    using that by (rule sellTool_frame)
  show "snd (shortSellTool b tkr n) = b" if "\<not> is_submitted (fst (shortSellTool b tkr n))"
    using that by (rule shortSellTool_frame)
  show "snd (coverShortTool b tkr n) = b" if "\<not> is_submitted (fst (coverShortTool b tkr n))"
    using that by (rule coverShortTool_frame)
qed

lemma example_prices:
  "getStockPrice example_broker ''AAPL'' = Inr (2245 / 10)"
  "getStockPrice example_broker ''TSLA'' = Inr 100"
  by (simp_all add: getStockPrice_def example_broker_def round2_def)

lemma example_account:
  "getAccount example_broker = Some \<lparr>account.cash = 1000, buying_power = 100, portfolio_value = 1000\<rparr>"
  by (simp add: example_broker_def)

lemma example_positions:
  "getPositions example_broker = Some [\<lparr>symbol = ''TSLA'', qty = - 5\<rparr>, \<lparr>symbol = ''AAPL'', qty = 3\<rparr>]"
  by (simp add: example_broker_def)

theorem trade_tools_validation_submits_nothing_witness:
  "buyTool example_broker ''AAPL'' 5 = (NotEnoughBuyingPower 5 ''AAPL'' 100 (2245 / 2), example_broker)
   \<and> (\<exists>held. sellTool example_broker ''AAPL'' 5 = (NotEnoughShares ''AAPL'' held, example_broker))
   \<and> shortSellTool example_broker ''TSLA'' 5 = (EquityBelowMinimum 1000, example_broker)
   \<and> shortSellTool
        (example_broker\<lparr>getAccount :=
           Some \<lparr>account.cash = 1000, buying_power = 100, portfolio_value = 50000\<rparr>\<rparr>) ''TSLA'' 5
       = (InsufficientBuyingPowerShort 250 100,
          example_broker\<lparr>getAccount :=
            Some \<lparr>account.cash = 1000, buying_power = 100, portfolio_value = 50000\<rparr>\<rparr>)
   \<and> (\<exists>held. coverShortTool example_broker ''AAPL'' 1 = (NoShortPosition ''AAPL'' held, example_broker))
   \<and> coverShortTool example_broker ''TSLA'' 10 = (CannotCover 10 5 ''TSLA'', example_broker)"
proof -
  let ?a = "\<lparr>account.cash = 1000, buying_power = 100, portfolio_value = 1000\<rparr>"
  let ?a' = "\<lparr>account.cash = 1000, buying_power = 100, portfolio_value = 50000\<rparr>"
  let ?ps = "[\<lparr>symbol = ''TSLA'', qty = - 5\<rparr>, \<lparr>symbol = ''AAPL'', qty = 3\<rparr>]"
  let ?b' = "example_broker\<lparr>getAccount := Some ?a'\<rparr>"
  have p': "getStockPrice ?b' ''TSLA'' = Inr 100"
    by (simp add: getStockPrice_def example_broker_def round2_def)
  have 1: "buyTool example_broker ''AAPL'' 5
      = (NotEnoughBuyingPower 5 ''AAPL'' 100 (2245 / 2), example_broker)"
    using trade_tools_validation_submits_nothing [where b = example_broker and a = ?a
        and tkr = "''AAPL''" and px = "2245 / 10" and n = 5 and ps = ?ps
        and sp = "\<lparr>symbol = ''AAPL'', qty = 3\<rparr>"] example_prices example_account
    by simp
  have 2: "\<exists>held. sellTool example_broker ''AAPL'' 5 = (NotEnoughShares ''AAPL'' held, example_broker)"
    using trade_tools_validation_submits_nothing [where b = example_broker and a = ?a
        and tkr = "''AAPL''" and px = "2245 / 10" and n = 5 and ps = ?ps
        and sp = "\<lparr>symbol = ''AAPL'', qty = 3\<rparr>"] example_positions
    by simp
  have 3: "shortSellTool example_broker ''TSLA'' 5 = (EquityBelowMinimum 1000, example_broker)"
    using trade_tools_validation_submits_nothing [where b = example_broker and a = ?a
        and tkr = "''TSLA''" and px = 100 and n = 5 and ps = ?ps
        and sp = "\<lparr>symbol = ''TSLA'', qty = - 5\<rparr>"] example_account
    by simp
  have 4: "shortSellTool ?b' ''TSLA'' 5 = (InsufficientBuyingPowerShort 250 100, ?b')"
    using trade_tools_validation_submits_nothing [where b = ?b' and a = ?a'
        and tkr = "''TSLA''" and px = 100 and n = 5 and ps = ?ps
        and sp = "\<lparr>symbol = ''TSLA'', qty = - 5\<rparr>"] p'
    by simp
  have 5: "\<exists>held. coverShortTool example_broker ''AAPL'' 1 = (NoShortPosition ''AAPL'' held, example_broker)"
    using trade_tools_validation_submits_nothing [where b = example_broker and a = ?a
        and tkr = "''AAPL''" and px = "2245 / 10" and n = 1 and ps = ?ps
        and sp = "\<lparr>symbol = ''AAPL'', qty = 3\<rparr>"] example_positions
    by simp
  have 6: "coverShortTool example_broker ''TSLA'' 10 = (CannotCover 10 5 ''TSLA'', example_broker)"
    using trade_tools_validation_submits_nothing [where b = example_broker and a = ?a
        and tkr = "''TSLA''" and px = 100 and n = 10 and ps = ?ps
        and sp = "\<lparr>symbol = ''TSLA'', qty = - 5\<rparr>"] example_positions
    by simp
  from 1 2 3 4 5 6 show ?thesis by blast
qed













lemma hasCorruption_orphan:
  assumes "item \<in> set t" and "item_type item = Some ''function_call_result''"
    and "\<forall>call\<in>set t. item_type call = Some ''function_call'' \<longrightarrow> callId call \<noteq> callId item"
  shows "hasCorruption t"
proof -
  have "find (\<lambda>call. callId call = callId item \<and> item_type call = Some ''function_call'') t = None"
    using assms(3) by (auto simp add: find_None_iff)
  with assms(1,2) show ?thesis
    unfolding hasCorruption_def list_ex_iff by blast
qed

lemma hasReasoningMismatch_missing:
  assumes "fc \<in> set t" and "item_type fc = Some ''function_call''"
    and "item_id fc = Some (''fc_'' @ x)"
    and "\<forall>rs\<in>set t. item_type rs = Some ''reasoning'' \<longrightarrow> item_id rs \<noteq> Some (''rs_'' @ x)"
  shows "hasReasoningMismatch t"
  using assms
  unfolding hasReasoningMismatch_def Let_def list_ex_iff
  by (intro bexI [of _ fc]) auto

lemma oversized_clean:
  "\<not> hasCorruption oversized_thread" "\<not> hasReasoningMismatch oversized_thread"
  "length oversized_thread = 51"
  by (simp_all add: hasCorruption_def hasReasoningMismatch_def oversized_thread_def list_ex_iff)

text \<open>
  C4 (amended): when the thread file parses to a thread with a function result whose call
  id matches no function call, loadThread copies the raw file to the timestamped
  quarantine file and returns the empty thread; the agent of src/unnamed/part_008 does the
  same for a function call with an id \<^verbatim>\<open>fc_...\<close> whose reasoning item \<^verbatim>\<open>rs_...\<close> is
  missing. A thread of more than 50 items without these defects is reset to the empty
  thread, and no quarantine copy is written.
\<close>

theorem loadThread_quarantine:
  assumes "fs ThreadFile = Some raw" and "parse raw = Some t"
  shows "(hasCorruption t \<longrightarrow> loadThread parse now fs = ([], fs(CorruptedCopy now \<mapsto> raw)))
    \<and> (hasCorruption t \<or> hasReasoningMismatch t
         \<longrightarrow> loadThread_reasoning parse now fs = ([], fs(CorruptedCopy now \<mapsto> raw)))
    \<and> (\<not> hasCorruption t \<and> length t > 50 \<longrightarrow> loadThread parse now fs = ([], fs))
    \<and> (\<not> hasCorruption t \<and> \<not> hasReasoningMismatch t \<and> length t > 50
         \<longrightarrow> loadThread_reasoning parse now fs = ([], fs))
    \<and> ((\<exists>item\<in>set t. item_type item = Some ''function_call_result''
            \<and> (\<forall>call\<in>set t. item_type call = Some ''function_call''
                   \<longrightarrow> callId call \<noteq> callId item))
         \<longrightarrow> hasCorruption t)
    \<and> ((\<exists>fc\<in>set t. item_type fc = Some ''function_call''
            \<and> (\<exists>x. item_id fc = Some (''fc_'' @ x)
                   \<and> (\<forall>rs\<in>set t. item_type rs = Some ''reasoning''
                          \<longrightarrow> item_id rs \<noteq> Some (''rs_'' @ x))))
         \<longrightarrow> hasReasoningMismatch t)"
proof (intro conjI impI)
  show "loadThread parse now fs = ([], fs(CorruptedCopy now \<mapsto> raw))" if "hasCorruption t"
    using that assms by (simp add: loadThread_def)
  show "loadThread_reasoning parse now fs = ([], fs(CorruptedCopy now \<mapsto> raw))"
    if "hasCorruption t \<or> hasReasoningMismatch t"
    using that assms by (auto simp add: loadThread_reasoning_def)
  show "loadThread parse now fs = ([], fs)" if "\<not> hasCorruption t \<and> length t > 50"
    using that assms by (simp add: loadThread_def)
  show "loadThread_reasoning parse now fs = ([], fs)"
    if "\<not> hasCorruption t \<and> \<not> hasReasoningMismatch t \<and> length t > 50"
    using that assms by (simp add: loadThread_reasoning_def)
  show "hasCorruption t"
    if "\<exists>item\<in>set t. item_type item = Some ''function_call_result''
            \<and> (\<forall>call\<in>set t. item_type call = Some ''function_call''
                   \<longrightarrow> callId call \<noteq> callId item)"
    using that hasCorruption_orphan by blast
  show "hasReasoningMismatch t"
    if "\<exists>fc\<in>set t. item_type fc = Some ''function_call''
            \<and> (\<exists>x. item_id fc = Some (''fc_'' @ x)
                   \<and> (\<forall>rs\<in>set t. item_type rs = Some ''reasoning''
                          \<longrightarrow> item_id rs \<noteq> Some (''rs_'' @ x)))"
    using that hasReasoningMismatch_missing by blast
qed

theorem loadThread_quarantine_witness:
  "loadThread (\<lambda>raw. Some orphan_result_thread) 1700000000000 (thread_files ''[...]'')
     = ([], (thread_files ''[...]'')(CorruptedCopy 1700000000000 \<mapsto> ''[...]''))
   \<and> loadThread_reasoning (\<lambda>raw. Some unreasoned_call_thread) 1700000000000 (thread_files ''[...]'')
     = ([], (thread_files ''[...]'')(CorruptedCopy 1700000000000 \<mapsto> ''[...]''))
   \<and> loadThread (\<lambda>raw. Some unreasoned_call_thread) 1700000000000 (thread_files ''[...]'')
     = (unreasoned_call_thread, thread_files ''[...]'')
   \<and> loadThread_reasoning (\<lambda>raw. Some oversized_thread) 1700000000000 (thread_files ''[...]'')
     = ([], thread_files ''[...]'')"
proof -
  have f: "thread_files ''[...]'' ThreadFile = Some ''[...]''"
    by (simp add: thread_files_def)
  have 1: "loadThread (\<lambda>raw. Some orphan_result_thread) 1700000000000 (thread_files ''[...]'')
     = ([], (thread_files ''[...]'')(CorruptedCopy 1700000000000 \<mapsto> ''[...]''))"
    using loadThread_quarantine [where fs = "thread_files ''[...]''" and raw = "''[...]''" and parse = "\<lambda>raw. Some orphan_result_thread"
        and t = orphan_result_thread and now = 1700000000000] f
    by (simp add: orphan_result_thread_def)
  have 2: "loadThread_reasoning (\<lambda>raw. Some unreasoned_call_thread) 1700000000000
       (thread_files ''[...]'')
     = ([], (thread_files ''[...]'')(CorruptedCopy 1700000000000 \<mapsto> ''[...]''))"
    using loadThread_quarantine [where fs = "thread_files ''[...]''" and raw = "''[...]''" and parse = "\<lambda>raw. Some unreasoned_call_thread"
        and t = unreasoned_call_thread and now = 1700000000000] f
    by (simp add: unreasoned_call_thread_def)
  have 3: "loadThread (\<lambda>raw. Some unreasoned_call_thread) 1700000000000 (thread_files ''[...]'')
     = (unreasoned_call_thread, thread_files ''[...]'')"
    by (simp add: loadThread_def f hasCorruption_def unreasoned_call_thread_def)
  have 4: "loadThread_reasoning (\<lambda>raw. Some oversized_thread) 1700000000000 (thread_files ''[...]'')
     = ([], thread_files ''[...]'')"
    using loadThread_quarantine [where fs = "thread_files ''[...]''" and raw = "''[...]''" and parse = "\<lambda>raw. Some oversized_thread"
        and t = oversized_thread and now = 1700000000000] f oversized_clean
    by simp
  from 1 2 3 4 show ?thesis by blast
qed

text \<open>
  C4 as stated, refuted: loading a clean thread of 51 items returns the empty thread
  but writes no quarantine file; the files are as before.
\<close>

theorem loadThread_oversized_counterexample:
  "loadThread (\<lambda>raw. Some oversized_thread) 1700000000000 (thread_files ''[...]'')
     = ([], thread_files ''[...]'')
   \<and> loadThread_reasoning (\<lambda>raw. Some oversized_thread) 1700000000000 (thread_files ''[...]'')
     = ([], thread_files ''[...]'')
   \<and> thread_files ''[...]'' (CorruptedCopy 1700000000000) = None"
  by (simp add: loadThread_def loadThread_reasoning_def oversized_clean thread_files_def)












end
